theory Spec2Isabelle
  imports Main "HOL-Library.AList"
begin

section \<open>Strings\<close>

text \<open>
  Go strings are byte sequences; \<open>string\<close> is a list of bytes as well.
  \<open>hasPrefix\<close>, \<open>Contains\<close>, \<open>Join\<close> and \<open>ToLower\<close> stand for the functions of
  Go's \<open>strings\<close> package that the proxy calls.  \<open>ToLower\<close> maps the ASCII capitals and
  leaves every other byte as it is.
\<close>

fun hasPrefix :: "string \<Rightarrow> string \<Rightarrow> bool" where
  "hasPrefix s [] = True"
| "hasPrefix [] (p # ps) = False"
| "hasPrefix (c # cs) (p # ps) = (c = p \<and> hasPrefix cs ps)"

fun Contains :: "string \<Rightarrow> string \<Rightarrow> bool" where
  "Contains [] sub = hasPrefix [] sub"
| "Contains (c # cs) sub = (hasPrefix (c # cs) sub \<or> Contains cs sub)"

fun Join :: "string list \<Rightarrow> string \<Rightarrow> string" where
  "Join [] sep = []"
| "Join [x] sep = x"
| "Join (x # y # ys) sep = x @ sep @ Join (y # ys) sep"

definition lowerChar :: "char \<Rightarrow> char" where
  "lowerChar c =
     (case map_of (zip ''ABCDEFGHIJKLMNOPQRSTUVWXYZ'' ''abcdefghijklmnopqrstuvwxyz'') c of
        Some l \<Rightarrow> l
      | None \<Rightarrow> c)"

definition ToLower :: "string \<Rightarrow> string" where
  "ToLower s = map lowerChar s"

section \<open>Data model\<close>

text \<open>
  An \<open>http.Header\<close> is a Go map from the canonical header key to the list of its
  values.  It is an association list here, so that the \<open>range\<close> loop of the response copy
  has an order to run in; \<open>Header_Get\<close>, \<open>Header_Set\<close>, \<open>Header_Add\<close> and \<open>Header_Del\<close>
  are the methods of \<open>http.Header\<close>, on keys that are already canonical.
\<close>

type_synonym header = "(string \<times> string list) list"

definition Header_Get :: "header \<Rightarrow> string \<Rightarrow> string" where
  "Header_Get h k = (case map_of h k of Some (v # vs) \<Rightarrow> v | _ \<Rightarrow> [])"

definition Header_Set :: "header \<Rightarrow> string \<Rightarrow> string \<Rightarrow> header" where
  "Header_Set h k v = AList.update k [v] h"

definition Header_Add :: "header \<Rightarrow> string \<Rightarrow> string \<Rightarrow> header" where
  "Header_Add h k v =
     AList.update k ((case map_of h k of Some vs \<Rightarrow> vs | None \<Rightarrow> []) @ [v]) h"

definition Header_Del :: "header \<Rightarrow> string \<Rightarrow> header" where
  "Header_Del h k = AList.delete k h"

text \<open>A Go \<open>error\<close> is represented by the text its \<open>Error()\<close> method returns.\<close>

type_synonym error = string

text \<open>
  \<open>route.Endpoint\<close>: \<open>CanonicalAddr\<close> is the result of the method of that name.
\<close>

record endpoint =
  CanonicalAddr :: string
  ApplicationId :: string
  PrivateInstanceId :: string

text \<open>
  The fields of \<open>http.Request\<close> that \<open>ServeHTTP\<close> reads or writes.  \<open>TLS\<close> is
  \<open>req.TLS != nil\<close>, \<open>URL_Host\<close> is \<open>req.URL.Host\<close> and \<open>URL_EscapedPath\<close> is
  \<open>req.URL.EscapedPath()\<close>.
\<close>

record request =
  Header :: header
  RemoteAddr :: string
  ProtoMajor :: int
  ProtoMinor :: int
  TLS :: bool
  Host :: string
  RequestURI :: string
  URL_Host :: string
  URL_EscapedPath :: string

record response =
  StatusCode :: int
  RespHeader :: header
  Trailer :: header
  Body :: string

text \<open>
  A pool of the registry.  \<open>Endpoints lb sticky\<close> is the iterator the pool builds for a
  load-balancing strategy and a sticky id: the endpoints its successive \<open>Next\<close> calls
  yield, after which it is exhausted.
\<close>

record pool =
  Endpoints :: "string \<Rightarrow> string \<Rightarrow> endpoint list"
  RouteServiceUrl :: string

record RouteServiceRequest =
  URLString :: string
  Signature :: string
  Metadata :: string
  ForwardedURL :: string

text \<open>
  The response writer: its header map, the status line and header once
  \<open>WriteHeader\<close> has sent them, the body bytes written, and whether it is an
  \<open>http.Flusher\<close>.
\<close>

record writer =
  w_header :: header
  w_sent :: "(int \<times> header) option"
  w_body :: string
  w_flusher :: bool

record AccessLogRecord =
  RouteEndpoint :: "endpoint option"
  ALR_StatusCode :: int

text \<open>
  What the dispatcher does to its collaborators, in the order it does it: the calls on
  the request handler (the failure responder and the two tunnel hand-offs), on the pool
  and the iterator, on the metrics reporter, on the HTTP client, and on the continuation.
\<close>

datatype event =
    HandleUnsupportedProtocol
  | HandleMissingRoute
  | HandleTcpRequest "endpoint list"
  | HandleWebSocketRequest "endpoint list"
  | HandleUnsupportedRouteService
  | HandleBadSignature error
  | HandleRouteServiceFailure error
  | HandleBadGateway error
  | PoolEndpoints string string
  | IterNext "endpoint option"
  | CaptureRoutingRequest endpoint
  | PreRequest endpoint
  | PostRequest endpoint
  | HcDo request "error + response"
  | Flush
  | CopyResponse string
  | NextHandler
  | NilDereference

text \<open>
  The \<open>FastReverseProxy\<close> value with its collaborators, and the parts of the package
  that the file under study uses and does not declare: the cookie and header names, the
  sentinel error of the handler package, the helpers \<open>upgradeHeader\<close>,
  \<open>hasBeenToRouteService\<close>, \<open>setupProxyRequest\<close> and \<open>SetTraceHeaders\<close>; the library
  functions \<open>net.SplitHostPort\<close> and the cookie parser of \<open>net/http\<close>; and the network,
  \<open>hcDo n r\<close> being what \<open>hc.Do\<close> returns for request \<open>r\<close> at pass \<open>n\<close> of the retry loop.

  \<open>req\<close> and \<open>backendReq\<close> are the same pointer in \<open>ServeHTTP\<close>, so
  \<open>setupProxyRequest\<close> is a function of one request.
\<close>

record env =
  Lookup :: "string \<Rightarrow> pool option"
  RouteServiceEnabled :: bool
  RouteServiceRecommendHttps :: bool
  ValidateSignature :: "header \<Rightarrow> string \<Rightarrow> error option"
  RouteServiceConfig_Request :: "string \<Rightarrow> string \<Rightarrow> error + RouteServiceRequest"
  defaultLoadBalance :: string
  forceForwardedProtoHttps :: bool
  traceKey :: string
  ip :: string
  StickyCookieKey :: string
  VcapCookieId :: string
  RouteServiceSignature :: string
  RouteServiceMetadata :: string
  RouteServiceForwardedURL :: string
  VcapTraceHeader :: string
  CfInstanceIdHeader :: string
  NoEndpointsAvailable :: error
  upgradeHeader :: "request \<Rightarrow> string"
  hasBeenToRouteService :: "string \<Rightarrow> string \<Rightarrow> bool"
  setupProxyRequest :: "request \<Rightarrow> request"
  SetTraceHeaders :: "header \<Rightarrow> string \<Rightarrow> string \<Rightarrow> header"
  SplitHostPort :: "string \<Rightarrow> (string \<times> string) option"
  readCookies :: "string list \<Rightarrow> (string \<times> string) list"
  hcDo :: "nat \<Rightarrow> request \<Rightarrow> error + response"

text \<open>
  The state of one \<open>ServeHTTP\<close> call: the request object, the response writer, the
  access log record, the local variables of the retry loop and the events so far.
\<close>

record state =
  req :: request
  rw :: writer
  accessLog :: AccessLogRecord
  iter :: "endpoint list"
  endpoint :: "endpoint option"
  err :: "error option"
  backendResp :: "response option"
  events :: "event list"

definition emit :: "event \<Rightarrow> state \<Rightarrow> state" where
  "emit e s = s\<lparr>events := events s @ [e]\<rparr>"

section \<open>The functions of the source file\<close>

definition HopHeaders :: "string list" where
  "HopHeaders =
     [''Connection'', ''Proxy-Connection'', ''Keep-Alive'', ''Proxy-Authenticate'',
      ''Proxy-Authorization'', ''Te'', ''Trailer'', ''Transfer-Encoding'', ''Upgrade'']"

definition xForwardedForKey :: string where
  "xForwardedForKey = ''X-Forwarded-For''"

definition maxRetries :: nat where
  "maxRetries = 3"

definition retryableError :: "error \<Rightarrow> bool" where
  "retryableError e = Contains e ''dial''"

definition setupRequest :: "env \<Rightarrow> request \<Rightarrow> endpoint \<Rightarrow> request" where
  "setupRequest env r ep =
     (let h1 = Header_Set (Header r) ''X-CF-ApplicationID'' (ApplicationId ep);
          v = (if PrivateInstanceId ep = [] then CanonicalAddr ep else PrivateInstanceId ep)
      in r\<lparr>Header := Header_Set h1 (CfInstanceIdHeader env) v\<rparr>)"

definition hostWithoutPort :: "request \<Rightarrow> string" where
  "hostWithoutPort r = takeWhile (\<lambda>c. c \<noteq> CHR '':'') (Host r)"

definition isProtocolSupported :: "request \<Rightarrow> bool" where
  "isProtocolSupported r = (ProtoMajor r = 1 \<and> (ProtoMinor r = 0 \<or> ProtoMinor r = 1))"

text \<open>
  \<open>request.Cookie name\<close> of \<open>net/http\<close>: the first cookie of that name among those
  parsed from the \<open>Cookie\<close> header lines, or \<open>ErrNoCookie\<close> (\<open>None\<close>).
\<close>

definition Cookie :: "env \<Rightarrow> request \<Rightarrow> string \<Rightarrow> string option" where
  "Cookie env r name =
     map_of (readCookies env (case map_of (Header r) ''Cookie'' of Some vs \<Rightarrow> vs | None \<Rightarrow> [])) name"

definition getStickySession :: "env \<Rightarrow> request \<Rightarrow> string" where
  "getStickySession env r =
     (case Cookie env r (StickyCookieKey env) of
        Some m \<Rightarrow> (case Cookie env r (VcapCookieId env) of Some sticky \<Rightarrow> sticky | None \<Rightarrow> [])
      | None \<Rightarrow> [])"

definition isWebSocketUpgrade :: "env \<Rightarrow> request \<Rightarrow> bool" where
  "isWebSocketUpgrade env r = (ToLower (upgradeHeader env r) = ''websocket'')"

definition isTcpUpgrade :: "env \<Rightarrow> request \<Rightarrow> bool" where
  "isTcpUpgrade env r = (upgradeHeader env r = ''tcp'')"

text \<open>
  Modelled from the spec: the helper \<open>upgradeHeader\<close> is called by \<open>isWebSocketUpgrade\<close>
  and \<open>isTcpUpgrade\<close> and is not declared in the file under study.  The spec (4.6)
  classifies a request purely from the value of its \<open>Upgrade\<close> header, so the helper
  returns that value, read from the request it is given.
\<close>

definition upgradeHeaderValue :: "request \<Rightarrow> string" where
  "upgradeHeaderValue r = Header_Get (Header r) ''Upgrade''"

text \<open>
  The closure \<open>afterNext\<close> that \<open>ServeHTTP\<close> installs in the wrapped iterator.
\<close>

definition afterNext :: "endpoint option \<Rightarrow> state \<Rightarrow> state" where
  "afterNext e s =
     (case e of
        None \<Rightarrow> s
      | Some ep \<Rightarrow>
          emit (CaptureRoutingRequest ep)
            (s\<lparr>accessLog := (accessLog s)\<lparr>RouteEndpoint := Some ep\<rparr>\<rparr>))"

text \<open>
  Modelled from the spec: the type \<open>wrappedIterator\<close> and its methods are not declared in
  the file under study.  By the spec (3, 4.1) it decorates the pool's iterator: an
  advance yields at most one endpoint of the nested iterator and the after-selection
  hook runs on what was selected; the pre- and post-attempt hooks go to the nested
  iterator's accounting.
\<close>

definition wrappedIterator_Next :: "state \<Rightarrow> endpoint option \<times> state" where
  "wrappedIterator_Next s =
     (case iter s of
        [] \<Rightarrow> (None, afterNext None (emit (IterNext None) s))
      | e # es \<Rightarrow> (Some e, afterNext (Some e) (emit (IterNext (Some e)) (s\<lparr>iter := es\<rparr>))))"

definition selectEndpoint :: "env \<Rightarrow> state \<Rightarrow> (error + endpoint) \<times> state" where
  "selectEndpoint env s =
     (case wrappedIterator_Next s of
        (None, s') \<Rightarrow> (Inl (NoEndpointsAvailable env), s')
      | (Some ep, s') \<Rightarrow> (Inr ep, s'))"

text \<open>
  The loop \<open>for retry := 0; retry < maxRetries; retry++\<close> of \<open>ServeHTTP\<close>, from pass
  \<open>retry\<close> on.  \<open>backend\<close> is the local variable of that name.
\<close>

function retryLoop :: "env \<Rightarrow> bool \<Rightarrow> nat \<Rightarrow> state \<Rightarrow> state" where
  "retryLoop env backend retry s =
     (if retry < maxRetries then
        (case selectEndpoint env s of
           (Inl e, s1) \<Rightarrow> s1\<lparr>endpoint := None, err := Some e\<rparr>
         | (Inr ep, s1) \<Rightarrow>
             (let s2 = emit (PreRequest ep)
                         (s1\<lparr>endpoint := Some ep, err := None,
                             req := setupRequest env (req s1) ep\<rparr>);
                  r1 = (setupProxyRequest env (req s2))\<lparr>RequestURI := []\<rparr>;
                  r2 = (if backend then r1\<lparr>URL_Host := CanonicalAddr ep\<rparr> else r1);
                  res = hcDo env retry r2;
                  s3 = emit (PostRequest ep) (emit (HcDo r2 res) (s2\<lparr>req := r2\<rparr>))
              in (case res of
                    Inr resp \<Rightarrow> s3\<lparr>backendResp := Some resp, err := None\<rparr>
                  | Inl e \<Rightarrow>
                      if \<not> retryableError e
                      then s3\<lparr>backendResp := None, err := Some e\<rparr>
                      else retryLoop env backend (retry + 1)
                             (s3\<lparr>backendResp := None, err := Some e\<rparr>))))
      else s)"
  by pat_completeness auto
termination
  by (relation "measure (\<lambda>(env, backend, retry, s). maxRetries - retry)") auto

declare retryLoop.simps [simp del]

text \<open>The hop-by-hop loop \<open>for _, h := range HopHeaders { Header.Del(h) }\<close>.\<close>

definition delHopHeaders :: "header \<Rightarrow> header" where
  "delHopHeaders h = fold (\<lambda>k h'. Header_Del h' k) HopHeaders h"

definition foldForwardedFor :: "env \<Rightarrow> request \<Rightarrow> request" where
  "foldForwardedFor env r =
     (case SplitHostPort env (RemoteAddr r) of
        None \<Rightarrow> r
      | Some (clientIP, port) \<Rightarrow>
          (let prior = Header_Get (Header r) xForwardedForKey;
               clientIPKey = (if prior \<noteq> [] then prior @ '', '' @ clientIP else clientIP)
           in r\<lparr>Header := Header_Set (Header r) xForwardedForKey clientIPKey\<rparr>))"

definition setForwardedProto :: "env \<Rightarrow> request \<Rightarrow> request" where
  "setForwardedProto env r =
     (if forceForwardedProtoHttps env
      then r\<lparr>Header := Header_Set (Header r) ''X-Forwarded-Proto'' ''https''\<rparr>
      else if Header_Get (Header r) ''X-Forwarded-Proto'' = []
      then r\<lparr>Header := Header_Set (Header r) ''X-Forwarded-Proto''
                           (if TLS r then ''https'' else ''http'')\<rparr>
      else r)"

text \<open>
  The route-service part of \<open>ServeHTTP\<close>, from \<open>backend := true\<close> to the retry loop:
  \<open>Inl\<close> is a return through the failure responder, \<open>Inr\<close> carries the value of
  \<open>backend\<close> and the state the loop starts in.
\<close>

definition routeServiceGateway :: "env \<Rightarrow> pool \<Rightarrow> state \<Rightarrow> state + bool \<times> state" where
  "routeServiceGateway env p s =
     (let routeServiceUrl = RouteServiceUrl p in
      if routeServiceUrl \<noteq> [] \<and> \<not> RouteServiceEnabled env
      then Inl (emit HandleUnsupportedRouteService s)
      else if routeServiceUrl \<noteq> [] then
        (let rsSignature = Header_Get (Header (req s)) (RouteServiceSignature env);
             recommendedScheme = (if RouteServiceRecommendHttps env then ''https'' else ''http'');
             forwardedUrlRaw =
               recommendedScheme @ ''://'' @ hostWithoutPort (req s) @ RequestURI (req s)
         in if hasBeenToRouteService env routeServiceUrl rsSignature then
              (case ValidateSignature env (Header (req s)) forwardedUrlRaw of
                 Some e \<Rightarrow> Inl (emit (HandleBadSignature e) s)
               | None \<Rightarrow>
                   (let h1 = Header_Del (Header (req s)) (RouteServiceSignature env);
                        h2 = Header_Del h1 (RouteServiceMetadata env);
                        h3 = Header_Del h2 (RouteServiceForwardedURL env)
                    in Inr (True, s\<lparr>req := (req s)\<lparr>Header := h3\<rparr>\<rparr>)))
            else
              (case RouteServiceConfig_Request env routeServiceUrl forwardedUrlRaw of
                 Inl e \<Rightarrow> Inl (emit (HandleRouteServiceFailure e) s)
               | Inr routeServiceArgs \<Rightarrow>
                   (let h1 = Header_Set (Header (req s)) (RouteServiceSignature env)
                               (Signature routeServiceArgs);
                        h2 = Header_Set h1 (RouteServiceMetadata env) (Metadata routeServiceArgs);
                        h3 = Header_Set h2 (RouteServiceForwardedURL env)
                               (ForwardedURL routeServiceArgs)
                    in Inr (False, s\<lparr>req := (req s)\<lparr>Header := h3\<rparr>\<rparr>))))
      else Inr (True, s))"

text \<open>
  The loop \<open>for k, v := range h { rw.Header().Set(k, strings.Join(v, ",")) }\<close>: \<open>h\<close> lists
  the entries of the backend response's header map in the order the loop visits them.
\<close>

definition copyHeader :: "header \<Rightarrow> header \<Rightarrow> header" where
  "copyHeader h w = fold (\<lambda>(k, v) w'. Header_Set w' k (Join v '','')) h w"

definition copyTrailer :: "header \<Rightarrow> header \<Rightarrow> header" where
  "copyTrailer t w = fold (\<lambda>(k, vv) w'. fold (\<lambda>v w''. Header_Add w'' k v) vv w') t w"

definition WriteHeader :: "int \<Rightarrow> writer \<Rightarrow> writer" where
  "WriteHeader code w =
     (case w_sent w of None \<Rightarrow> w\<lparr>w_sent := Some (code, w_header w)\<rparr> | Some x \<Rightarrow> w)"

text \<open>
  \<open>ServeHTTP\<close> after the retry loop has ended without an error, for the response
  \<open>resp\<close> it obtained.  \<open>copyResponse\<close> writes the body to the writer; the flush timer of
  the relay is not part of this model.
\<close>

definition relayResponse :: "env \<Rightarrow> response \<Rightarrow> state \<Rightarrow> state" where
  "relayResponse env resp s =
     (let s1 = s\<lparr>accessLog := (accessLog s)\<lparr>ALR_StatusCode := StatusCode resp\<rparr>\<rparr>;
          wh0 = (case endpoint s1 of
                   Some ep \<Rightarrow>
                     if traceKey env \<noteq> [] \<and>
                        Header_Get (Header (req s1)) (VcapTraceHeader env) = traceKey env
                     then SetTraceHeaders env (w_header (rw s1)) (ip env) (CanonicalAddr ep)
                     else w_header (rw s1)
                 | None \<Rightarrow> w_header (rw s1));
          h = delHopHeaders (RespHeader resp);
          wh1 = copyHeader h wh0;
          wh2 = (if Header_Get h ''Content-Type'' = []
                 then AList.update ''Content-Type'' [] wh1 else wh1);
          wh3 = (if Trailer resp \<noteq> []
                 then Header_Add wh2 ''Trailer'' (Join (map fst (Trailer resp)) '', '')
                 else wh2);
          w1 = WriteHeader (StatusCode resp) ((rw s1)\<lparr>w_header := wh3\<rparr>);
          s2 = (if Trailer resp \<noteq> [] \<and> w_flusher w1
                then emit Flush (s1\<lparr>rw := w1\<rparr>) else s1\<lparr>rw := w1\<rparr>);
          s3 = emit (CopyResponse (Body resp))
                 (s2\<lparr>rw := (rw s2)\<lparr>w_body := w_body (rw s2) @ Body resp\<rparr>\<rparr>);
          s4 = s3\<lparr>rw := (rw s3)\<lparr>w_header := copyTrailer (Trailer resp) (w_header (rw s3))\<rparr>\<rparr>
      in emit NextHandler s4)"

text \<open>
  \<open>ServeHTTP\<close> from the retry loop to its end: the loop, the bad-gateway return when
  it ends with an error, the relay otherwise.  Dereferencing a nil response panics.
\<close>

definition forward :: "env \<Rightarrow> bool \<Rightarrow> state \<Rightarrow> state" where
  "forward env backend s =
     (let s1 = retryLoop env backend 0 s
      in case err s1 of
           Some e \<Rightarrow>
             (let s2 = emit (HandleBadGateway e) s1
              in s2\<lparr>rw := (rw s2)\<lparr>w_body := w_body (rw s2) @
                   ''Exceeded max retries: Timed out connecting to backends.''\<rparr>\<rparr>)
         | None \<Rightarrow>
             (case backendResp s1 of
                None \<Rightarrow> emit NilDereference s1
              | Some resp \<Rightarrow> relayResponse env resp s1))"

text \<open>
  \<open>ServeHTTP\<close>.  The writer is a \<open>ProxyResponseWriter\<close> whose context holds the access
  log record, as the two type assertions at the top of the function require; the body
  wrapper and the pooled request handler carry nothing the dispatch depends on.
  \<open>req\<close> and \<open>backendReq\<close> are one object, the field \<open>req\<close> of the state.
\<close>

definition ServeHTTP :: "env \<Rightarrow> writer \<Rightarrow> AccessLogRecord \<Rightarrow> request \<Rightarrow> state" where
  "ServeHTTP env w alr r =
     (let s0 = \<lparr>req = foldForwardedFor env (r\<lparr>Header := delHopHeaders (Header r)\<rparr>),
                rw = w, accessLog = alr, iter = [], endpoint = None, err = None,
                backendResp = None, events = []\<rparr>
      in if \<not> isProtocolSupported (req s0) then emit HandleUnsupportedProtocol s0
         else
           (let s1 = s0\<lparr>req := setForwardedProto env (req s0)\<rparr>;
                uri = hostWithoutPort (req s1) @ URL_EscapedPath (req s1)
            in case Lookup env uri of
                 None \<Rightarrow> emit HandleMissingRoute s1
               | Some p \<Rightarrow>
                   (let stickyEndpointId = getStickySession env (req s1);
                        s2 = emit (PoolEndpoints (defaultLoadBalance env) stickyEndpointId)
                               (s1\<lparr>iter := Endpoints p (defaultLoadBalance env) stickyEndpointId\<rparr>)
                    in if isTcpUpgrade env (req s2) then emit (HandleTcpRequest (iter s2)) s2
                       else if isWebSocketUpgrade env (req s2)
                       then emit (HandleWebSocketRequest (iter s2)) s2
                       else
                         (case routeServiceGateway env p s2 of
                            Inl s3 \<Rightarrow> s3
                          | Inr (backend, s3) \<Rightarrow> forward env backend s3))))"

section \<open>Vocabulary of the properties\<close>

text \<open>
  The request that one pass of the retry loop hands to \<open>hc.Do\<close>, for the request object
  \<open>r\<close> as the pass finds it and the endpoint \<open>ep\<close> it selected.
\<close>

definition outboundRequest :: "env \<Rightarrow> bool \<Rightarrow> request \<Rightarrow> endpoint \<Rightarrow> request" where
  "outboundRequest env backend r ep =
     (let r1 = (setupProxyRequest env (setupRequest env r ep))\<lparr>RequestURI := []\<rparr>
      in if backend then r1\<lparr>URL_Host := CanonicalAddr ep\<rparr> else r1)"

text \<open>The state a pass leaves when \<open>hc.Do\<close> has returned \<open>res\<close> and the hooks have run.\<close>

definition afterAttempt ::
  "request \<Rightarrow> error + response \<Rightarrow> endpoint \<Rightarrow> endpoint list \<Rightarrow> state \<Rightarrow> state" where
  "afterAttempt q res ep es s =
     s\<lparr>iter := es, accessLog := (accessLog s)\<lparr>RouteEndpoint := Some ep\<rparr>,
       endpoint := Some ep, req := q,
       events := events s @
         [IterNext (Some ep), CaptureRoutingRequest ep, PreRequest ep, HcDo q res,
          PostRequest ep],
       backendResp := (case res of Inl e \<Rightarrow> None | Inr resp \<Rightarrow> Some resp),
       err := (case res of Inl e \<Rightarrow> Some e | Inr resp \<Rightarrow> None)\<rparr>"

text \<open>The backend attempts among some events: the requests sent and what came back.\<close>

fun attempts :: "event list \<Rightarrow> (request \<times> (error + response)) list" where
  "attempts [] = []"
| "attempts (HcDo q res # evs) = (q, res) # attempts evs"
| "attempts (e # evs) = attempts evs"

text \<open>The events of the retry loop.\<close>

fun isLoopEvent :: "event \<Rightarrow> bool" where
  "isLoopEvent (IterNext e) = True"
| "isLoopEvent (CaptureRoutingRequest ep) = True"
| "isLoopEvent (PreRequest ep) = True"
| "isLoopEvent (PostRequest ep) = True"
| "isLoopEvent (HcDo q res) = True"
| "isLoopEvent e = False"

text \<open>
  The events that end a request without a forwarded response: the calls on the failure
  responder and the two tunnel hand-offs.
\<close>

fun isFailureBranch :: "event \<Rightarrow> bool" where
  "isFailureBranch HandleUnsupportedProtocol = True"
| "isFailureBranch HandleMissingRoute = True"
| "isFailureBranch (HandleTcpRequest it) = True"
| "isFailureBranch (HandleWebSocketRequest it) = True"
| "isFailureBranch HandleUnsupportedRouteService = True"
| "isFailureBranch (HandleBadSignature e) = True"
| "isFailureBranch (HandleRouteServiceFailure e) = True"
| "isFailureBranch (HandleBadGateway e) = True"
| "isFailureBranch e = False"

section \<open>Example inputs\<close>

definition E1 :: endpoint where
  "E1 = \<lparr>CanonicalAddr = ''10.0.1.1:8080'', ApplicationId = ''app-1'', PrivateInstanceId = ''inst-1''\<rparr>"

definition E2 :: endpoint where
  "E2 = \<lparr>CanonicalAddr = ''10.0.1.2:8080'', ApplicationId = ''app-1'', PrivateInstanceId = ''inst-2''\<rparr>"

definition E3 :: endpoint where
  "E3 = \<lparr>CanonicalAddr = ''10.0.1.3:8080'', ApplicationId = ''app-1'', PrivateInstanceId = []\<rparr>"

definition exResponse :: response where
  "exResponse =
     \<lparr>StatusCode = 200,
      RespHeader = [(''Content-Type'', [''text/plain'']), (''Set-Cookie'', [''a=1'', ''b=2''])],
      Trailer = [], Body = ''ok''\<rparr>"

definition exRequest :: request where
  "exRequest =
     \<lparr>Header = [(''Accept'', [''*/*''])], RemoteAddr = ''192.0.2.7:51234'',
      ProtoMajor = 1, ProtoMinor = 1, TLS = False, Host = ''app.example.com:80'',
      RequestURI = ''/'', URL_Host = [], URL_EscapedPath = ''/''\<rparr>"

definition exWriter :: writer where
  "exWriter = \<lparr>w_header = [], w_sent = None, w_body = [], w_flusher = True\<rparr>"

definition exLog :: AccessLogRecord where
  "exLog = \<lparr>RouteEndpoint = None, ALR_StatusCode = 0\<rparr>"

definition exPool :: "endpoint list \<Rightarrow> string \<Rightarrow> pool" where
  "exPool its rs = \<lparr>Endpoints = (\<lambda>lb sid. its), RouteServiceUrl = rs\<rparr>"

text \<open>
  A proxy that routes \<open>app.example.com/\<close> to the pool \<open>p\<close> over the network \<open>net\<close>, with
  route services enabled.  The names it uses for the cookies and headers are those of a
  usual deployment; its \<open>upgradeHeader\<close> is the one modelled from the spec; its
  \<open>setupProxyRequest\<close> leaves the request as it is.
\<close>

definition exEnv :: "pool \<Rightarrow> (nat \<Rightarrow> request \<Rightarrow> error + response) \<Rightarrow> env" where
  "exEnv p net =
     \<lparr>Lookup = (\<lambda>uri. if uri = ''app.example.com/'' then Some p else None),
      RouteServiceEnabled = True,
      RouteServiceRecommendHttps = True,
      ValidateSignature =
        (\<lambda>h u. if Header_Get h ''X-Cf-Proxy-Signature'' = ''valid'' then None
               else Some ''signature rejected''),
      RouteServiceConfig_Request =
        (\<lambda>u f. Inr \<lparr>URLString = u, Signature = ''sig'', Metadata = ''meta'', ForwardedURL = f\<rparr>),
      defaultLoadBalance = ''round-robin'',
      forceForwardedProtoHttps = False,
      traceKey = [],
      ip = ''10.0.0.1'',
      StickyCookieKey = ''JSESSIONID'',
      VcapCookieId = ''__VCAP_ID__'',
      RouteServiceSignature = ''X-Cf-Proxy-Signature'',
      RouteServiceMetadata = ''X-Cf-Proxy-Metadata'',
      RouteServiceForwardedURL = ''X-Cf-Forwarded-Url'',
      VcapTraceHeader = ''X-Vcap-Trace'',
      CfInstanceIdHeader = ''X-Cf-Instanceid'',
      NoEndpointsAvailable = ''No endpoints available'',
      upgradeHeader = upgradeHeaderValue,
      hasBeenToRouteService = (\<lambda>u sig. sig \<noteq> [] \<and> u \<noteq> []),
      setupProxyRequest = (\<lambda>r. r),
      SetTraceHeaders =
        (\<lambda>h i a. Header_Set (Header_Set h ''X-Vcap-Router'' i) ''X-Vcap-Backend'' a),
      SplitHostPort =
        (\<lambda>a. Some (takeWhile (\<lambda>c. c \<noteq> CHR '':'') a, drop 1 (dropWhile (\<lambda>c. c \<noteq> CHR '':'') a))),
      readCookies =
        (\<lambda>ls. if ls = [''JSESSIONID=1; __VCAP_ID__=abc123'']
              then [(''JSESSIONID'', ''1''), (''__VCAP_ID__'', ''abc123'')] else []),
      hcDo = net\<rparr>"

definition exState :: "endpoint list \<Rightarrow> state" where
  "exState its =
     \<lparr>req = exRequest, rw = exWriter, accessLog = exLog, iter = its, endpoint = None,
      err = None, backendResp = None, events = []\<rparr>"

text \<open>Networks: one that answers every request, one whose first dial fails and whose
  second attempt fails after the connection, one whose first two dials fail.\<close>

definition netOk :: "nat \<Rightarrow> request \<Rightarrow> error + response" where
  "netOk n q = Inr exResponse"

definition netDialThenEOF :: "nat \<Rightarrow> request \<Rightarrow> error + response" where
  "netDialThenEOF n q =
     (if n = 0 then Inl ''dial tcp 10.0.1.1:8080: connection refused'' else Inl ''EOF'')"

definition netDialDialOk :: "nat \<Rightarrow> request \<Rightarrow> error + response" where
  "netDialDialOk n q =
     (if n = 0 then Inl ''dial tcp 10.0.1.1:8080: connection refused''
      else if n = 1 then Inl ''dial tcp 10.0.1.2:8080: i/o timeout''
      else Inr exResponse)"

section \<open>Headers and requests\<close>

lemma map_of_Header_Del:
  "map_of (Header_Del h k) k' = (if k' = k then None else map_of h k')"
  by (simp add: Header_Del_def delete_conv')

lemma map_of_Header_Set:
  "map_of (Header_Set h k v) k' = (if k' = k then Some [v] else map_of h k')"
  by (simp add: Header_Set_def update_conv')

lemma map_of_delHopHeaders:
  "map_of (delHopHeaders h) k = (if k \<in> set HopHeaders then None else map_of h k)"
proof -
  have "map_of (fold (\<lambda>k h'. Header_Del h' k) ks h) k =
          (if k \<in> set ks then None else map_of h k)" for ks
    by (induction ks arbitrary: h) (auto simp: map_of_Header_Del)
  then show ?thesis by (simp add: delHopHeaders_def)
qed

lemma foldForwardedFor_fields:
  "ProtoMajor (foldForwardedFor env r) = ProtoMajor r"
  "ProtoMinor (foldForwardedFor env r) = ProtoMinor r"
  "Host (foldForwardedFor env r) = Host r"
  "TLS (foldForwardedFor env r) = TLS r"
  "RequestURI (foldForwardedFor env r) = RequestURI r"
  "URL_Host (foldForwardedFor env r) = URL_Host r"
  "URL_EscapedPath (foldForwardedFor env r) = URL_EscapedPath r"
  by (simp_all add: foldForwardedFor_def Let_def split: option.splits prod.splits)

lemma setForwardedProto_fields:
  "ProtoMajor (setForwardedProto env r) = ProtoMajor r"
  "ProtoMinor (setForwardedProto env r) = ProtoMinor r"
  "Host (setForwardedProto env r) = Host r"
  "TLS (setForwardedProto env r) = TLS r"
  "RequestURI (setForwardedProto env r) = RequestURI r"
  "URL_Host (setForwardedProto env r) = URL_Host r"
  "URL_EscapedPath (setForwardedProto env r) = URL_EscapedPath r"
  by (simp_all add: setForwardedProto_def)

section \<open>Unsupported protocols\<close>

text \<open>
  C6: a request whose protocol version is neither HTTP/1.0 nor HTTP/1.1 is answered through
  the unsupported-protocol failure of the request handler and nothing else happens: the call
  on the failure responder is the only event of \<open>ServeHTTP\<close>, so the registry is not
  consulted, no endpoint is selected and no backend is contacted, and the dispatcher itself
  writes nothing to the response writer.
\<close>

theorem unsupported_protocol_rejected:
  assumes "ProtoMajor r \<noteq> 1 \<or> (ProtoMinor r \<noteq> 0 \<and> ProtoMinor r \<noteq> 1)"
  shows "events (ServeHTTP env w alr r) = [HandleUnsupportedProtocol] \<and>
         rw (ServeHTTP env w alr r) = w"
  using assms
  by (auto simp add: ServeHTTP_def Let_def isProtocolSupported_def foldForwardedFor_fields
        emit_def)

theorem unsupported_protocol_rejected_witness:
  "events (ServeHTTP (exEnv (exPool [E1] []) netOk) exWriter exLog
             (exRequest\<lparr>ProtoMajor := 2, ProtoMinor := 0\<rparr>)) = [HandleUnsupportedProtocol] \<and>
   rw (ServeHTTP (exEnv (exPool [E1] []) netOk) exWriter exLog
         (exRequest\<lparr>ProtoMajor := 2, ProtoMinor := 0\<rparr>)) = exWriter"
  using unsupported_protocol_rejected
    [of "exRequest\<lparr>ProtoMajor := 2, ProtoMinor := 0\<rparr>" "exEnv (exPool [E1] []) netOk"
        exWriter exLog]
  by simp

section \<open>The retry loop\<close>

lemma selectEndpoint_Nil:
  "iter s = [] \<Longrightarrow> selectEndpoint env s = (Inl (NoEndpointsAvailable env), emit (IterNext None) s)"
  by (simp add: selectEndpoint_def wrappedIterator_Next_def afterNext_def)

lemma selectEndpoint_Cons:
  "iter s = ep # es \<Longrightarrow>
   selectEndpoint env s =
     (Inr ep, s\<lparr>iter := es, accessLog := (accessLog s)\<lparr>RouteEndpoint := Some ep\<rparr>,
               events := events s @ [IterNext (Some ep), CaptureRoutingRequest ep]\<rparr>)"
  by (simp add: selectEndpoint_def wrappedIterator_Next_def afterNext_def emit_def)

lemma retryLoop_done: "\<not> n < maxRetries \<Longrightarrow> retryLoop env b n s = s"
  by (subst retryLoop.simps) simp

lemma retryLoop_exhausted:
  "n < maxRetries \<Longrightarrow> iter s = [] \<Longrightarrow>
   retryLoop env b n s =
     s\<lparr>endpoint := None, err := Some (NoEndpointsAvailable env),
       events := events s @ [IterNext None]\<rparr>"
  by (subst retryLoop.simps[of env b n s]) (simp add: selectEndpoint_Nil emit_def)

lemma retryLoop_pass:
  assumes "n < maxRetries" and "iter s = ep # es"
  shows "retryLoop env b n s =
     (let q = outboundRequest env b (req s) ep;
          res = hcDo env n q;
          t = afterAttempt q res ep es s
      in case res of
           Inr resp \<Rightarrow> t
         | Inl e \<Rightarrow> if retryableError e then retryLoop env b (n + 1) t else t)"
  using assms
  by (subst retryLoop.simps[of env b n s])
     (simp add: selectEndpoint_Cons emit_def outboundRequest_def afterAttempt_def Let_def
           split: sum.splits)

lemma retryLoop_cases:
  assumes d: "\<And>n s. \<not> n < maxRetries \<Longrightarrow> P n s s"
    and x: "\<And>n s. n < maxRetries \<Longrightarrow> iter s = [] \<Longrightarrow>
              P n s (s\<lparr>endpoint := None, err := Some (NoEndpointsAvailable env),
                       events := events s @ [IterNext None]\<rparr>)"
    and ok: "\<And>n s ep es resp. n < maxRetries \<Longrightarrow> iter s = ep # es \<Longrightarrow>
              hcDo env n (outboundRequest env b (req s) ep) = Inr resp \<Longrightarrow>
              P n s (afterAttempt (outboundRequest env b (req s) ep) (Inr resp) ep es s)"
    and fatal: "\<And>n s ep es e. n < maxRetries \<Longrightarrow> iter s = ep # es \<Longrightarrow>
              hcDo env n (outboundRequest env b (req s) ep) = Inl e \<Longrightarrow> \<not> retryableError e \<Longrightarrow>
              P n s (afterAttempt (outboundRequest env b (req s) ep) (Inl e) ep es s)"
    and retry: "\<And>n s ep es e s'. n < maxRetries \<Longrightarrow> iter s = ep # es \<Longrightarrow>
              hcDo env n (outboundRequest env b (req s) ep) = Inl e \<Longrightarrow> retryableError e \<Longrightarrow>
              P (n + 1) (afterAttempt (outboundRequest env b (req s) ep) (Inl e) ep es s) s' \<Longrightarrow>
              P n s s'"
  shows "P n s (retryLoop env b n s)"
proof (induction "maxRetries - n" arbitrary: n s)
  case 0
  then have "\<not> n < maxRetries" by simp
  then show ?case by (simp add: retryLoop_done d)
next
  case (Suc k)
  then have lt: "n < maxRetries" by simp
  show ?case
  proof (cases "iter s")
    case Nil
    with lt show ?thesis by (simp add: retryLoop_exhausted x)
  next
    case (Cons ep es)
    let ?q = "outboundRequest env b (req s) ep"
    show ?thesis
    proof (cases "hcDo env n ?q")
      case (Inr resp)
      with lt Cons show ?thesis by (simp add: retryLoop_pass ok)
    next
      case (Inl e)
      show ?thesis
      proof (cases "retryableError e")
        case False
        with lt Cons Inl show ?thesis by (simp add: retryLoop_pass fatal)
      next
        case True
        from Suc.hyps(2) lt have k: "k = maxRetries - (n + 1)" by simp
        have "P (n + 1) (afterAttempt ?q (Inl e) ep es s)
                (retryLoop env b (n + 1) (afterAttempt ?q (Inl e) ep es s))"
          by (rule Suc.hyps(1) [OF k])
        then have "P n s (retryLoop env b (n + 1) (afterAttempt ?q (Inl e) ep es s))"
          by (rule retry [OF lt Cons Inl True])
        with lt Cons Inl True show ?thesis by (simp add: retryLoop_pass)
      qed
    qed
  qed
qed

lemma attempts_append: "attempts (xs @ ys) = attempts xs @ attempts ys"
  by (induction xs rule: attempts.induct) simp_all

lemma events_afterAttempt:
  "events (afterAttempt q res ep es s) =
     events s @ [IterNext (Some ep), CaptureRoutingRequest ep, PreRequest ep, HcDo q res, PostRequest ep]"
  by (simp add: afterAttempt_def)

lemma err_afterAttempt:
  "err (afterAttempt q res ep es s) = (case res of Inl e \<Rightarrow> Some e | Inr resp \<Rightarrow> None)"
  "backendResp (afterAttempt q res ep es s) = (case res of Inl e \<Rightarrow> None | Inr resp \<Rightarrow> Some resp)"
  "rw (afterAttempt q res ep es s) = rw s"
  "req (afterAttempt q res ep es s) = q"
  "iter (afterAttempt q res ep es s) = es"
  "endpoint (afterAttempt q res ep es s) = Some ep"
  by (simp_all add: afterAttempt_def)

lemma retryLoop_attempts:
  "\<exists>ext. events (retryLoop env b n s) = events s @ ext \<and>
     length (attempts ext) \<le> maxRetries - n \<and>
     (\<forall>i. Suc i < length (attempts ext) \<longrightarrow>
        (\<exists>e. snd (attempts ext ! i) = Inl e \<and> retryableError e)) \<and>
     (\<forall>i e. i < length (attempts ext) \<and> snd (attempts ext ! i) = Inl e \<and> \<not> retryableError e \<longrightarrow>
        Suc i = length (attempts ext) \<and> err (retryLoop env b n s) = Some e)"
proof (rule retryLoop_cases [where env = env and b = b])
  fix n s assume "\<not> n < maxRetries"
  show "\<exists>ext. events s = events s @ ext \<and> length (attempts ext) \<le> maxRetries - n \<and>
     (\<forall>i. Suc i < length (attempts ext) \<longrightarrow> (\<exists>e. snd (attempts ext ! i) = Inl e \<and> retryableError e)) \<and>
     (\<forall>i e. i < length (attempts ext) \<and> snd (attempts ext ! i) = Inl e \<and> \<not> retryableError e \<longrightarrow>
        Suc i = length (attempts ext) \<and> err s = Some e)"
    by (rule exI [of _ "[]"]) simp
next
  fix n s assume "n < maxRetries" "iter s = []"
  show "\<exists>ext. events (s\<lparr>endpoint := None, err := Some (NoEndpointsAvailable env),
                       events := events s @ [IterNext None]\<rparr>) = events s @ ext \<and> length (attempts ext) \<le> maxRetries - n \<and>
     (\<forall>i. Suc i < length (attempts ext) \<longrightarrow> (\<exists>e. snd (attempts ext ! i) = Inl e \<and> retryableError e)) \<and>
     (\<forall>i e. i < length (attempts ext) \<and> snd (attempts ext ! i) = Inl e \<and> \<not> retryableError e \<longrightarrow>
        Suc i = length (attempts ext) \<and> err (s\<lparr>endpoint := None, err := Some (NoEndpointsAvailable env),
                       events := events s @ [IterNext None]\<rparr>) = Some e)"
    by (rule exI [of _ "[IterNext None]"]) simp
next
  fix n s ep es resp
  assume "n < maxRetries"
  then show "\<exists>ext. events (afterAttempt (outboundRequest env b (req s) ep) (Inr resp) ep es s) = events s @ ext \<and> length (attempts ext) \<le> maxRetries - n \<and>
     (\<forall>i. Suc i < length (attempts ext) \<longrightarrow> (\<exists>e. snd (attempts ext ! i) = Inl e \<and> retryableError e)) \<and>
     (\<forall>i e. i < length (attempts ext) \<and> snd (attempts ext ! i) = Inl e \<and> \<not> retryableError e \<longrightarrow>
        Suc i = length (attempts ext) \<and> err (afterAttempt (outboundRequest env b (req s) ep) (Inr resp) ep es s) = Some e)"
    by (simp add: events_afterAttempt)
next
  fix n s ep es e
  assume "n < maxRetries" "\<not> retryableError e"
  then show "\<exists>ext. events (afterAttempt (outboundRequest env b (req s) ep) (Inl e) ep es s) = events s @ ext \<and> length (attempts ext) \<le> maxRetries - n \<and>
     (\<forall>i. Suc i < length (attempts ext) \<longrightarrow> (\<exists>e. snd (attempts ext ! i) = Inl e \<and> retryableError e)) \<and>
     (\<forall>i e'. i < length (attempts ext) \<and> snd (attempts ext ! i) = Inl e' \<and> \<not> retryableError e' \<longrightarrow>
        Suc i = length (attempts ext) \<and> err (afterAttempt (outboundRequest env b (req s) ep) (Inl e) ep es s) = Some e')"
    by (simp add: events_afterAttempt err_afterAttempt)
next
  fix n s ep es e s'
  let ?t = "afterAttempt (outboundRequest env b (req s) ep) (Inl e) ep es s"
  assume lt: "n < maxRetries" and re: "retryableError e"
    and ih: "\<exists>ext. events s' = events ?t @ ext \<and> length (attempts ext) \<le> maxRetries - (n + 1) \<and>
     (\<forall>i. Suc i < length (attempts ext) \<longrightarrow> (\<exists>e. snd (attempts ext ! i) = Inl e \<and> retryableError e)) \<and>
     (\<forall>i e. i < length (attempts ext) \<and> snd (attempts ext ! i) = Inl e \<and> \<not> retryableError e \<longrightarrow>
        Suc i = length (attempts ext) \<and> err s' = Some e)"
  then obtain ext where ev: "events s' = events ?t @ ext"
    and len: "length (attempts ext) \<le> maxRetries - (n + 1)"
    and mid: "\<forall>i. Suc i < length (attempts ext) \<longrightarrow> (\<exists>e. snd (attempts ext ! i) = Inl e \<and> retryableError e)"
    and fin: "\<forall>i e. i < length (attempts ext) \<and> snd (attempts ext ! i) = Inl e \<and> \<not> retryableError e \<longrightarrow>
        Suc i = length (attempts ext) \<and> err s' = Some e"
    by blast
  let ?q = "outboundRequest env b (req s) ep"
  let ?blk = "[IterNext (Some ep), CaptureRoutingRequest ep, PreRequest ep, HcDo ?q (Inl e), PostRequest ep]"
  have att: "attempts (?blk @ ext) = (?q, Inl e) # attempts ext"
    by (simp add: attempts_append)
  have 1: "events s' = events s @ (?blk @ ext)"
    using ev by (simp add: events_afterAttempt)
  have 2: "length (attempts (?blk @ ext)) \<le> maxRetries - n"
    using len lt by (simp add: att)
  have 3: "\<forall>i. Suc i < length (attempts (?blk @ ext)) \<longrightarrow>
        (\<exists>e. snd (attempts (?blk @ ext) ! i) = Inl e \<and> retryableError e)"
  proof (intro allI impI)
    fix i assume "Suc i < length (attempts (?blk @ ext))"
    then show "\<exists>e. snd (attempts (?blk @ ext) ! i) = Inl e \<and> retryableError e"
      using mid re by (cases i) (simp_all add: att)
  qed
  have 4: "\<forall>i e'. i < length (attempts (?blk @ ext)) \<and> snd (attempts (?blk @ ext) ! i) = Inl e' \<and> \<not> retryableError e' \<longrightarrow>
        Suc i = length (attempts (?blk @ ext)) \<and> err s' = Some e'"
  proof (intro allI impI)
    fix i e' assume "i < length (attempts (?blk @ ext)) \<and> snd (attempts (?blk @ ext) ! i) = Inl e' \<and> \<not> retryableError e'"
    then show "Suc i = length (attempts (?blk @ ext)) \<and> err s' = Some e'"
      using fin re by (cases i) (auto simp add: att)
  qed
  from 1 2 3 4 show "\<exists>ext. events s' = events s @ ext \<and> length (attempts ext) \<le> maxRetries - n \<and>
     (\<forall>i. Suc i < length (attempts ext) \<longrightarrow> (\<exists>e. snd (attempts ext ! i) = Inl e \<and> retryableError e)) \<and>
     (\<forall>i e. i < length (attempts ext) \<and> snd (attempts ext ! i) = Inl e \<and> \<not> retryableError e \<longrightarrow>
        Suc i = length (attempts ext) \<and> err s' = Some e)"
    by blast
qed

section \<open>The example inputs in the loop\<close>

lemma exEnv_sel:
  "hcDo (exEnv p net) = net"
  "setupProxyRequest (exEnv p net) = (\<lambda>r. r)"
  "NoEndpointsAvailable (exEnv p net) = ''No endpoints available''"
  "CfInstanceIdHeader (exEnv p net) = ''X-Cf-Instanceid''"
  by (simp_all add: exEnv_def)

lemma exState_sel:
  "iter (exState its) = its"
  "events (exState its) = []"
  "req (exState its) = exRequest"
  by (simp_all add: exState_def)

lemma iter_afterAttempt: "iter (afterAttempt q res ep es s) = es"
  by (simp add: afterAttempt_def)

lemma retryable_examples:
  "retryableError ''dial tcp 10.0.1.1:8080: connection refused''"
  "retryableError ''dial tcp 10.0.1.2:8080: i/o timeout''"
  "\<not> retryableError ''EOF''"
  by (simp_all add: retryableError_def)

lemma ex_loop_eval:
  "map snd (attempts (events (retryLoop (exEnv (exPool [] []) netDialThenEOF) True 0 (exState [E1, E2, E3])))) =
     [Inl ''dial tcp 10.0.1.1:8080: connection refused'', Inl ''EOF'']"
  by (simp add: retryLoop_pass [where s = "exState its" for its] 
        retryLoop_pass [where s = "afterAttempt q res ep es s" for q res ep es s]
        maxRetries_def exState_sel exEnv_sel Let_def retryable_examples
        events_afterAttempt iter_afterAttempt netDialThenEOF_def)

section \<open>Bound and classification of the retries\<close>

text \<open>
  C4: the retry loop makes at most 3 backend attempts.  A failed attempt is followed by
  another attempt only if the text of its error contains \<open>dial\<close>: every attempt but the last
  ended with such an error.  An attempt that ends with an error whose text does not contain
  \<open>dial\<close> is the last attempt, and the loop ends with that error.  The attempts are the
  calls of \<open>hc.Do\<close> among the events that the loop appends.
\<close>

theorem retry_loop_bounded:
  "\<exists>ext. events (retryLoop env backend 0 s) = events s @ ext \<and>
     length (attempts ext) \<le> 3 \<and>
     (\<forall>i. Suc i < length (attempts ext) \<longrightarrow>
        (\<exists>e. snd (attempts ext ! i) = Inl e \<and> Contains e ''dial'')) \<and>
     (\<forall>i e. i < length (attempts ext) \<and> snd (attempts ext ! i) = Inl e \<and>
        \<not> Contains e ''dial'' \<longrightarrow>
        Suc i = length (attempts ext) \<and> err (retryLoop env backend 0 s) = Some e)"
  using retryLoop_attempts [of env backend 0 s]
  by (simp add: maxRetries_def retryableError_def)

theorem retry_loop_bounded_witness:
  "map snd (attempts (events (retryLoop (exEnv (exPool [] []) netDialThenEOF) True 0
      (exState [E1, E2, E3])))) =
     [Inl ''dial tcp 10.0.1.1:8080: connection refused'', Inl ''EOF''] \<and>
   Contains ''dial tcp 10.0.1.1:8080: connection refused'' ''dial'' \<and>
   \<not> Contains ''EOF'' ''dial'' \<and>
   err (retryLoop (exEnv (exPool [] []) netDialThenEOF) True 0 (exState [E1, E2, E3])) =
     Some ''EOF''"
proof -
  let ?s = "exState [E1, E2, E3]"
  let ?env = "exEnv (exPool [] []) netDialThenEOF"
  from retry_loop_bounded [of ?env True ?s]
  obtain ext where ev: "events (retryLoop ?env True 0 ?s) = events ?s @ ext"
    and fin: "\<forall>i e. i < length (attempts ext) \<and> snd (attempts ext ! i) = Inl e \<and>
        \<not> Contains e ''dial'' \<longrightarrow>
        Suc i = length (attempts ext) \<and> err (retryLoop ?env True 0 ?s) = Some e"
    by blast
  from ev have ext: "ext = events (retryLoop ?env True 0 ?s)"
    by (simp add: exState_sel)
  have att: "map snd (attempts ext) =
      [Inl ''dial tcp 10.0.1.1:8080: connection refused'', Inl ''EOF'']"
    unfolding ext by (rule ex_loop_eval)
  from att have "length (map snd (attempts ext)) = 2" by simp
  then have len: "length (attempts ext) = 2" by simp
  have "snd (attempts ext ! 1) = map snd (attempts ext) ! 1"
    by (simp add: len)
  then have last: "snd (attempts ext ! 1) = Inl ''EOF''"
    by (simp add: att)
  have "\<not> Contains ''EOF'' ''dial''" by simp
  with fin [rule_format, of 1 "''EOF''"] last len
  have "err (retryLoop ?env True 0 ?s) = Some ''EOF''" by simp
  with att ext show ?thesis by simp
qed

end
